theory Spec2Isabelle
  imports Complex_Main "HOL-Library.Log_Nat"
begin

section \<open>The print canvas of printing-tools-v1\<close>

text \<open>
  This theory embeds the component \<open>PrintCanvas\<close> of \<open>src/PrintCanvas.js\<close> (the current
  version, with text annotations) and the props that \<open>src/App.js\<close> hands to it.

  The component keeps its state in React hooks. A handler is a function of the state of
  the render that created it; it returns the state after its \<open>set...\<close> calls. A handler
  that can throw returns a sum, \<open>Inl\<close> being the exception.

  JavaScript numbers are modelled as exact real numbers: the rounding of IEEE doubles is
  not represented, and neither are \<open>Infinity\<close> and \<open>NaN\<close>. The divisions of the program
  mean the same in this model and in JavaScript when the divisor is not zero; the
  theorems that depend on a division say so in a hypothesis. Where a property depends on
  the rounding, the same code is read in double arithmetic (\<open>newImage_double\<close>), each
  operation rounded to the nearest double.
\<close>

subsection \<open>Page geometry\<close>

datatype page_size = A4 | A3

datatype orientation = Portrait | Landscape

record props =
  pageSize :: page_size
  orientation :: orientation

record dimensions =
  width :: real
  height :: real

fun PAGE_SIZES :: "page_size \<Rightarrow> dimensions" where
  "PAGE_SIZES A4 = \<lparr>width = 210, height = 297\<rparr>"
| "PAGE_SIZES A3 = \<lparr>width = 297, height = 420\<rparr>"

definition canvasDimensions :: "props \<Rightarrow> dimensions" where
  "canvasDimensions p =
     (let baseDimensions = PAGE_SIZES (pageSize p)
      in if orientation p = Portrait
         then \<lparr>width = width baseDimensions, height = height baseDimensions\<rparr>
         else \<lparr>width = height baseDimensions, height = width baseDimensions\<rparr>)"

subsection \<open>The state of the component\<close>

text \<open>
  \<open>html_image\<close> is the decoded \<open>window.Image\<close> of an upload: the handler reads its
  \<open>width\<close> and \<open>height\<close>, which the DOM gives as non-negative integers.
\<close>

record html_image =
  elem_width :: nat
  elem_height :: nat

record grid_pos =
  row :: int
  col :: int

record placed_image =
  img_id :: nat
  img_src :: html_image
  img_x :: real
  img_y :: real
  img_width :: real
  img_height :: real
  img_gridPos :: grid_pos

record text_box =
  txt_id :: nat
  txt_x :: real
  txt_y :: real
  txt_text :: string
  txt_width :: real
  txt_rotation :: real

datatype print_mode = ScaledPrint | PECS

record grid_size =
  rows :: int
  cols :: int

record menu_pos =
  menu_x :: int
  menu_y :: int

record state =
  images :: "placed_image list"
  texts :: "text_box list"
  selectedImage :: "nat option"
  selectedText :: "nat option"
  printMode :: print_mode
  gridSize :: grid_size
  contextMenu :: "menu_pos option"

text \<open>The initial values of the \<open>useState\<close> hooks.\<close>

definition initial :: state where
  "initial =
     \<lparr>images = [], texts = [], selectedImage = None, selectedText = None,
      printMode = ScaledPrint, gridSize = \<lparr>rows = 3, cols = 4\<rparr>, contextMenu = None\<rparr>"

definition cellWidth :: "props \<Rightarrow> state \<Rightarrow> real" where
  "cellWidth p s = width (canvasDimensions p) / of_int (cols (gridSize s))"

definition cellHeight :: "props \<Rightarrow> state \<Rightarrow> real" where
  "cellHeight p s = height (canvasDimensions p) / of_int (rows (gridSize s))"

subsection \<open>Uploading an image\<close>

text \<open>
  The remainder operator \<open>%\<close> of JavaScript on integers: the result has the sign of the
  dividend. (With a zero divisor JavaScript gives \<open>NaN\<close>; the grid inputs never store
  zero, see \<open>setCols\<close>.)
\<close>

definition js_rem :: "int \<Rightarrow> int \<Rightarrow> int" where
  "js_rem a b = sgn a * (\<bar>a\<bar> mod \<bar>b\<bar>)"

text \<open>
  \<open>handleFileUpload\<close> runs in two parts. The handler itself clears the image list and
  starts reading the file. The callback \<open>img.onload\<close> runs later, when the file is
  decoded: it computes the new image from the variables that the handler's render
  bound (\<open>images\<close>, \<open>printMode\<close>, \<open>gridSize\<close>, the canvas and cell sizes; the state
  \<open>c\<close> below), and appends it to the list that is current when the callback runs
  (the functional update \<open>setImages((prevImages) => [...prevImages, newImage])\<close>).
\<close>

definition handleFileUpload :: "state \<Rightarrow> state" where
  "handleFileUpload s = s\<lparr>images := []\<rparr>"

definition newImage :: "props \<Rightarrow> state \<Rightarrow> html_image \<Rightarrow> placed_image" where
  "newImage p c img =
     (let scale =
            (if printMode c = ScaledPrint
             then min (width (canvasDimensions p) / real (elem_width img))
                      (height (canvasDimensions p) / real (elem_height img))
             else min (cellWidth p c / real (elem_width img))
                      (cellHeight p c / real (elem_height img)));
          w = real (elem_width img) * scale;
          h = real (elem_height img) * scale
      in \<lparr>img_id = length (images c),
          img_src = img,
          img_x = (if printMode c = ScaledPrint
                   then (width (canvasDimensions p) - w) / 2
                   else (cellWidth p c - w) / 2),
          img_y = (if printMode c = ScaledPrint
                   then (height (canvasDimensions p) - h) / 2
                   else (cellHeight p c - h) / 2),
          img_width = w,
          img_height = h,
          img_gridPos =
            \<lparr>row = \<lfloor>real (length (images c)) / of_int (cols (gridSize c))\<rfloor>,
             col = js_rem (int (length (images c))) (cols (gridSize c))\<rparr>\<rparr>)"

definition img_onload :: "props \<Rightarrow> state \<Rightarrow> html_image \<Rightarrow> state \<Rightarrow> state" where
  "img_onload p c img s = s\<lparr>images := images s @ [newImage p c img]\<rparr>"

text \<open>
  A completed upload that nothing overlaps: the handler, then its callback with no other
  event in between. The schedules in which other events, among them other uploads, come
  between the two are those of \<open>sys_fire\<close> below.
\<close>

definition upload :: "props \<Rightarrow> html_image \<Rightarrow> state \<Rightarrow> state" where
  "upload p img s = img_onload p s img (handleFileUpload s)"

subsection \<open>Selection, deletion, zoom\<close>

definition handleSelectImage :: "nat \<Rightarrow> state \<Rightarrow> state" where
  "handleSelectImage i s = s\<lparr>selectedImage := Some i, selectedText := None\<rparr>"

definition handleSelectText :: "nat \<Rightarrow> state \<Rightarrow> state" where
  "handleSelectText i s = s\<lparr>selectedText := Some i, selectedImage := None\<rparr>"

definition deleteSelectedImage :: "state \<Rightarrow> state" where
  "deleteSelectedImage s =
     s\<lparr>images := filter (\<lambda>img. Some (img_id img) \<noteq> selectedImage s) (images s),
       selectedImage := None, contextMenu := None\<rparr>"

definition deleteSelectedText :: "state \<Rightarrow> state" where
  "deleteSelectedText s =
     s\<lparr>texts := filter (\<lambda>txt. Some (txt_id txt) \<noteq> selectedText s) (texts s),
       selectedText := None, contextMenu := None\<rparr>"

definition zoomInImage :: "state \<Rightarrow> state" where
  "zoomInImage s =
     s\<lparr>images :=
         map (\<lambda>img. if Some (img_id img) = selectedImage s
                    then img\<lparr>img_width := img_width img * 1.2,
                             img_height := img_height img * 1.2\<rparr>
                    else img) (images s),
       contextMenu := None\<rparr>"

definition zoomOutImage :: "state \<Rightarrow> state" where
  "zoomOutImage s =
     s\<lparr>images :=
         map (\<lambda>img. if Some (img_id img) = selectedImage s
                    then img\<lparr>img_width := img_width img * 0.8,
                             img_height := img_height img * 0.8\<rparr>
                    else img) (images s),
       contextMenu := None\<rparr>"

subsection \<open>Text annotations\<close>

datatype error = TypeError

text \<open>
  \<open>images.find\<close> gives \<open>undefined\<close> when no image has the selected id, and reading
  \<open>image.x\<close> then throws, before any state is set.
\<close>

definition addText :: "state \<Rightarrow> error + state" where
  "addText s =
     (case selectedImage s of
        None \<Rightarrow> Inr (s\<lparr>contextMenu := None\<rparr>)
      | Some i \<Rightarrow>
          (case find (\<lambda>img. img_id img = i) (images s) of
             None \<Rightarrow> Inl TypeError
           | Some selImage \<Rightarrow>
               (let newText =
                      \<lparr>txt_id = length (texts s),
                       txt_x = img_x selImage + 10,
                       txt_y = img_y selImage + 10,
                       txt_text = ''Sample Text'',
                       txt_width = 100,
                       txt_rotation = 0\<rparr>
                in Inr (s\<lparr>texts := texts s @ [newText], contextMenu := None\<rparr>))))"

text \<open>
  \<open>handleTextChange\<close> merges the new attributes into every text with the given id. The
  two callers pass \<open>{x, y}\<close> (drag) and \<open>{x, y, rotation, width}\<close> (transform).
\<close>

record text_attrs =
  new_x :: real
  new_y :: real
  new_rotation :: "real option"
  new_width :: "real option"

definition merge_attrs :: "text_box \<Rightarrow> text_attrs \<Rightarrow> text_box" where
  "merge_attrs txt a =
     txt\<lparr>txt_x := new_x a, txt_y := new_y a,
         txt_rotation := (case new_rotation a of None \<Rightarrow> txt_rotation txt | Some r \<Rightarrow> r),
         txt_width := (case new_width a of None \<Rightarrow> txt_width txt | Some w \<Rightarrow> w)\<rparr>"

definition handleTextChange :: "nat \<Rightarrow> text_attrs \<Rightarrow> state \<Rightarrow> state" where
  "handleTextChange i newAttrs s =
     s\<lparr>texts := map (\<lambda>txt. if txt_id txt = i then merge_attrs txt newAttrs else txt) (texts s)\<rparr>"

definition handleTextEdit :: "nat \<Rightarrow> string \<Rightarrow> state \<Rightarrow> state" where
  "handleTextEdit i newText s =
     s\<lparr>texts := map (\<lambda>txt. if txt_id txt = i then txt\<lparr>txt_text := newText\<rparr> else txt) (texts s)\<rparr>"

subsection \<open>Context menu, stage, print, mode and grid\<close>

definition handleContextMenu :: "menu_pos \<Rightarrow> nat \<Rightarrow> string \<Rightarrow> state \<Rightarrow> state" where
  "handleContextMenu e i type s =
     (let s1 = (if type = ''image'' then s\<lparr>selectedImage := Some i, selectedText := None\<rparr>
                else if type = ''text'' then s\<lparr>selectedText := Some i, selectedImage := None\<rparr>
                else s)
      in s1\<lparr>contextMenu := Some e\<rparr>)"

text \<open>The argument says whether \<open>e.target === e.target.getStage()\<close>.\<close>

definition handleStageClick :: "bool \<Rightarrow> state \<Rightarrow> state" where
  "handleStageClick onStage s =
     (if onStage then s\<lparr>selectedImage := None, selectedText := None, contextMenu := None\<rparr>
      else s)"

text \<open>The state part of \<open>handlePrint\<close>; the raster export leaves the state alone.\<close>

definition handlePrint :: "state \<Rightarrow> state" where
  "handlePrint s = s\<lparr>selectedImage := None, selectedText := None\<rparr>"

definition handlePrintModeChange :: "print_mode \<Rightarrow> state \<Rightarrow> state" where
  "handlePrintModeChange v s = s\<lparr>printMode := v, images := [], texts := []\<rparr>"

text \<open>
  The two grid inputs: \<open>parseInt(e.target.value) || 5\<close> and \<open>... || 4\<close>. The argument
  is the result of \<open>parseInt\<close>, \<open>None\<close> for \<open>NaN\<close>; \<open>NaN\<close> and \<open>0\<close> are falsy.
\<close>

definition setCols :: "int option \<Rightarrow> state \<Rightarrow> state" where
  "setCols v s =
     s\<lparr>gridSize := (gridSize s)\<lparr>cols := (case v of None \<Rightarrow> 5 | Some n \<Rightarrow> if n = 0 then 5 else n)\<rparr>\<rparr>"

definition setRows :: "int option \<Rightarrow> state \<Rightarrow> state" where
  "setRows v s =
     s\<lparr>gridSize := (gridSize s)\<lparr>rows := (case v of None \<Rightarrow> 4 | Some n \<Rightarrow> if n = 0 then 4 else n)\<rparr>\<rparr>"

text \<open>
  The \<open>onChange\<close> of a \<open>ClippedImage\<close> (the end of a drag of the image at \<open>index\<close>):
  the image's own fields with the new position, stored at \<open>index\<close>.
\<close>

definition onChangeImage :: "nat \<Rightarrow> real \<Rightarrow> real \<Rightarrow> state \<Rightarrow> state" where
  "onChangeImage index x y s =
     s\<lparr>images := (images s)[index := (images s ! index)\<lparr>img_x := x, img_y := y\<rparr>]\<rparr>"

subsection \<open>Rendering of an image\<close>





subsection \<open>Events\<close>

text \<open>
  The events a user can fire on a rendered state, each wired as the \<open>return\<close> of the
  component has it. An element of a list is addressed by its position in the list, and
  the handler gets the id stored there. \<open>fire\<close> is \<open>None\<close> when the rendered state
  does not offer the event: no such element, the context menu closed, the grid inputs
  hidden. A click on the \<open>Text\<close> node of an annotation runs the node's own \<open>onClick\<close>
  and then, the event bubbling, the \<open>onClick\<close> of the enclosing \<open>Group\<close>. A handler
  that throws leaves the state as it was. \<open>StageMouseDown\<close> carries the result of the
  test \<open>e.target === e.target.getStage()\<close>; which pixels give which result is the matter
  of \<open>empty_canvas_target\<close> below. \<open>Upload\<close> is an upload that completes before the
  next event; \<open>sys_fire\<close> below has the start and the completion as two events.
\<close>

datatype event =
    ChangePrintMode print_mode
  | ChangeCols "int option"
  | ChangeRows "int option"
  | Upload html_image
  | ClickImage nat
  | DragImage nat real real
  | ContextMenuImage nat menu_pos
  | ClickTextBox nat
  | ClickTextNode nat
  | ContextMenuText nat menu_pos
  | EditText nat string
  | DragText nat real real
  | TransformText nat real real real real
  | StageMouseDown bool
  | MenuDelete
  | MenuZoomIn
  | MenuZoomOut
  | MenuAddText
  | MenuDeleteText
  | Print

fun fire :: "props \<Rightarrow> event \<Rightarrow> state \<Rightarrow> state option" where
  "fire p (ChangePrintMode v) s = Some (handlePrintModeChange v s)"
| "fire p (ChangeCols v) s = (if printMode s = PECS then Some (setCols v s) else None)"
| "fire p (ChangeRows v) s = (if printMode s = PECS then Some (setRows v s) else None)"
| "fire p (Upload img) s = Some (upload p img s)"
| "fire p (ClickImage k) s =
     (if k < length (images s) then Some (handleSelectImage (img_id (images s ! k)) s) else None)"
| "fire p (DragImage k x y) s =
     (if k < length (images s) then Some (onChangeImage k x y s) else None)"
| "fire p (ContextMenuImage k e) s =
     (if k < length (images s)
      then Some (handleContextMenu e (img_id (images s ! k)) ''image'' s) else None)"
| "fire p (ClickTextBox k) s =
     (if k < length (texts s) then Some (handleSelectText (txt_id (texts s ! k)) s) else None)"
| "fire p (ClickTextNode k) s =
     (if k < length (texts s)
      then Some (handleSelectText (txt_id (texts s ! k))
                   (s\<lparr>selectedText := Some (txt_id (texts s ! k))\<rparr>))
      else None)"
| "fire p (ContextMenuText k e) s =
     (if k < length (texts s)
      then Some (handleContextMenu e (txt_id (texts s ! k)) ''text'' s) else None)"
| "fire p (EditText k input) s =
     (if k < length (texts s) then Some (handleTextEdit (txt_id (texts s ! k)) input s) else None)"
| "fire p (DragText k x y) s =
     (if k < length (texts s)
      then Some (handleTextChange (txt_id (texts s ! k))
                   \<lparr>new_x = x, new_y = y, new_rotation = None, new_width = None\<rparr> s)
      else None)"
| "fire p (TransformText k x y r w) s =
     (if k < length (texts s)
      then Some (handleTextChange (txt_id (texts s ! k))
                   \<lparr>new_x = x, new_y = y, new_rotation = Some r, new_width = Some w\<rparr> s)
      else None)"
| "fire p (StageMouseDown onStage) s = Some (handleStageClick onStage s)"
| "fire p MenuDelete s = (if contextMenu s = None then None else Some (deleteSelectedImage s))"
| "fire p MenuZoomIn s = (if contextMenu s = None then None else Some (zoomInImage s))"
| "fire p MenuZoomOut s = (if contextMenu s = None then None else Some (zoomOutImage s))"
| "fire p MenuAddText s =
     (if contextMenu s = None then None
      else (case addText s of Inl _ \<Rightarrow> Some s | Inr s' \<Rightarrow> Some s'))"
| "fire p MenuDeleteText s = (if contextMenu s = None then None else Some (deleteSelectedText s))"
| "fire p Print s = Some (handlePrint s)"

fun run :: "props \<Rightarrow> event list \<Rightarrow> state \<Rightarrow> state option" where
  "run p [] s = Some s"
| "run p (e # es) s = (case fire p e s of None \<Rightarrow> None | Some s' \<Rightarrow> run p es s')"

text \<open>
  The states the component can be in: the initial one, and every state an event leads to
  from one of them. The props may differ from one event to the next.
\<close>

inductive reachable :: "state \<Rightarrow> bool" where
  reachable_initial: "reachable initial"
| reachable_fire: "reachable s \<Longrightarrow> fire p e s = Some s' \<Longrightarrow> reachable s'"

subsection \<open>The asynchronous schedule of uploads\<close>

text \<open>
  Between the handler of an upload and its callback the component takes other events,
  other uploads among them. A pending upload is the callback that the file reader and the
  decoder still hold: the props and the state of the render that created the handler, and
  the picture. \<open>StartUpload\<close> is the handler \<open>handleFileUpload\<close>; \<open>FinishUpload k\<close>
  is the callback of the pending upload at position \<open>k\<close>, run on the state that is
  current then; every other event is the one of \<open>fire\<close>.
\<close>

record pending_upload =
  pu_props :: props
  pu_closure :: state
  pu_img :: html_image

record system =
  hooks :: state
  pending :: "pending_upload list"

definition initial_system :: system where
  "initial_system = \<lparr>hooks = initial, pending = []\<rparr>"

datatype sys_event =
    StartUpload html_image
  | FinishUpload nat
  | Other event

fun sys_fire :: "props \<Rightarrow> sys_event \<Rightarrow> system \<Rightarrow> system option" where
  "sys_fire p (StartUpload img) w =
     Some \<lparr>hooks = handleFileUpload (hooks w),
           pending = pending w @ [\<lparr>pu_props = p, pu_closure = hooks w, pu_img = img\<rparr>]\<rparr>"
| "sys_fire p (FinishUpload k) w =
     (if k < length (pending w)
      then Some \<lparr>hooks = img_onload (pu_props (pending w ! k)) (pu_closure (pending w ! k))
                            (pu_img (pending w ! k)) (hooks w),
                 pending = take k (pending w) @ drop (Suc k) (pending w)\<rparr>
      else None)"
| "sys_fire p (Other e) w =
     (case fire p e (hooks w) of None \<Rightarrow> None | Some s' \<Rightarrow> Some (w\<lparr>hooks := s'\<rparr>))"

fun sys_run :: "props \<Rightarrow> sys_event list \<Rightarrow> system \<Rightarrow> system option" where
  "sys_run p [] w = Some w"
| "sys_run p (e # es) w = (case sys_fire p e w of None \<Rightarrow> None | Some w' \<Rightarrow> sys_run p es w')"

text \<open>The events that append an image to the list: the callbacks of uploads.\<close>

fun completes_upload :: "sys_event \<Rightarrow> bool" where
  "completes_upload (FinishUpload k) = True"
| "completes_upload (Other (Upload img)) = True"
| "completes_upload e = False"

subsection \<open>A mouse-down on the empty canvas\<close>

text \<open>
  The \<open>Stage\<close> is \<open>canvasDimensions.width * 3\<close> by \<open>canvasDimensions.height * 3\<close> pixels
  and scales its content by 3. The first node of its layer is the page: a filled \<open>Rect\<close>
  at the origin, \<open>canvasDimensions.width\<close> by \<open>canvasDimensions.height\<close> in the
  coordinates of the layer. A mouse-down at a pixel where no image and no text is drawn
  has the page \<open>Rect\<close> as its target when the \<open>Rect\<close> covers the pixel, and the stage
  itself otherwise; \<open>handleStageClick\<close> compares the target with the stage.
\<close>

definition stage_width :: "props \<Rightarrow> real" where
  "stage_width p = width (canvasDimensions p) * 3"

definition stage_height :: "props \<Rightarrow> real" where
  "stage_height p = height (canvasDimensions p) * 3"

definition on_stage :: "props \<Rightarrow> real \<Rightarrow> real \<Rightarrow> bool" where
  "on_stage p px py \<longleftrightarrow> 0 \<le> px \<and> px \<le> stage_width p \<and> 0 \<le> py \<and> py \<le> stage_height p"

definition page_rect_covers :: "props \<Rightarrow> real \<Rightarrow> real \<Rightarrow> bool" where
  "page_rect_covers p px py \<longleftrightarrow>
     0 \<le> px / 3 \<and> px / 3 \<le> width (canvasDimensions p) \<and>
     0 \<le> py / 3 \<and> py / 3 \<le> height (canvasDimensions p)"

datatype node = StageNode | PageRect

definition empty_canvas_target :: "props \<Rightarrow> real \<Rightarrow> real \<Rightarrow> node" where
  "empty_canvas_target p px py = (if page_rect_covers p px py then PageRect else StageNode)"

definition mouseDownEmptyCanvas :: "props \<Rightarrow> real \<Rightarrow> real \<Rightarrow> state \<Rightarrow> state" where
  "mouseDownEmptyCanvas p px py s = handleStageClick (empty_canvas_target p px py = StageNode) s"

subsection \<open>The geometry of an upload in double arithmetic\<close>










subsection \<open>Concrete inputs\<close>

text \<open>
  The page of the scenarios (A4, portrait), a decoded picture of 1000 by 500 pixels, and
  a pointer position for the context menu.
\<close>

definition a4_portrait :: props where
  "a4_portrait = \<lparr>pageSize = A4, orientation = Portrait\<rparr>"

definition photo :: html_image where
  "photo = \<lparr>elem_width = 1000, elem_height = 500\<rparr>"

definition pointer :: menu_pos where
  "pointer = \<lparr>menu_x = 40, menu_y = 60\<rparr>"

text \<open>A picture of 3000 by 2000 pixels, and the state after the switch to Grid mode.\<close>

definition poster :: html_image where
  "poster = \<lparr>elem_width = 3000, elem_height = 2000\<rparr>"


section \<open>Properties\<close>

subsection \<open>Auxiliary facts\<close>



lemma images_upload: "images (upload p img s) = [newImage p s img]"
  by (simp add: upload_def img_onload_def handleFileUpload_def)

lemma length_upload: "length (images (upload p img s)) = 1"
  by (simp add: images_upload)

lemma gridSize_upload: "gridSize (upload p img s) = gridSize s"
  by (simp add: upload_def img_onload_def handleFileUpload_def)




lemma js_rem_nonneg: "0 \<le> a \<Longrightarrow> 0 < b \<Longrightarrow> js_rem a b = a mod b"
  by (cases "a = 0") (simp_all add: js_rem_def)

lemma floor_nat_div: "\<lfloor>real n / real_of_int c\<rfloor> = int n div c"
proof -
  have "real n = real_of_int (int n)" by simp
  then have "\<lfloor>real n / real_of_int c\<rfloor> = \<lfloor>real_of_int (int n) / real_of_int c\<rfloor>"
    by (rule arg_cong)
  then show ?thesis by (simp only: floor_divide_of_int_eq)
qed

lemma gridPos_newImage:
  "0 < cols (gridSize c) \<Longrightarrow>
   img_gridPos (newImage p c img) =
     \<lparr>row = int (length (images c)) div cols (gridSize c),
      col = int (length (images c)) mod cols (gridSize c)\<rparr>"
  by (simp add: newImage_def Let_def js_rem_nonneg floor_nat_div)


text \<open>Every state that a sequence of events leads to is reachable.\<close>

lemma reachable_run: "reachable s \<Longrightarrow> run p es s = Some s' \<Longrightarrow> reachable s'"
proof (induction es arbitrary: s)
  case Nil
  then show ?case by simp
next
  case (Cons e es)
  from Cons.prems(2) obtain s1 where f: "fire p e s = Some s1" and r: "run p es s1 = Some s'"
    by (auto split: option.splits)
  from Cons.prems(1) f have "reachable s1" by (rule reachable_fire)
  then show ?case using r by (rule Cons.IH)
qed

text \<open>No event selects an image and a text at once.\<close>

lemma selection_fire:
  assumes "fire p e s = Some s'" "selectedImage s = None \<or> selectedText s = None"
  shows "selectedImage s' = None \<or> selectedText s' = None"
proof (cases e)
  case MenuAddText
  then show ?thesis using assms
    by (auto simp: addText_def Let_def split: if_splits option.splits sum.splits)
qed (use assms in \<open>auto simp: upload_def img_onload_def handleFileUpload_def handleSelectImage_def
  handleSelectText_def deleteSelectedImage_def deleteSelectedText_def zoomInImage_def
  zoomOutImage_def handleTextChange_def handleTextEdit_def handleContextMenu_def
  handleStageClick_def handlePrint_def handlePrintModeChange_def setCols_def setRows_def
  onChangeImage_def Let_def split: if_splits\<close>)

lemma selection_reachable:
  "reachable s \<Longrightarrow> selectedImage s = None \<or> selectedText s = None"
proof (induction rule: reachable.induct)
  case reachable_initial
  show ?case by (simp add: initial_def)
next
  case (reachable_fire s p e s')
  show ?case by (rule selection_fire [OF reachable_fire.hyps(2) reachable_fire.IH])
qed

text \<open>
  The grid counts are never zero, so the cell sizes are always the quotients that
  JavaScript computes. (They can be negative: the inputs accept a typed \<open>-2\<close>.)
\<close>

lemma grid_counts_fire:
  assumes "fire p e s = Some s'" "cols (gridSize s) \<noteq> 0 \<and> rows (gridSize s) \<noteq> 0"
  shows "cols (gridSize s') \<noteq> 0 \<and> rows (gridSize s') \<noteq> 0"
proof (cases e)
  case MenuAddText
  then show ?thesis using assms
    by (auto simp: addText_def Let_def split: if_splits option.splits sum.splits)
qed (use assms in \<open>auto simp: upload_def img_onload_def handleFileUpload_def handleSelectImage_def
  handleSelectText_def deleteSelectedImage_def deleteSelectedText_def zoomInImage_def
  zoomOutImage_def handleTextChange_def handleTextEdit_def handleContextMenu_def
  handleStageClick_def handlePrint_def handlePrintModeChange_def setCols_def setRows_def
  onChangeImage_def Let_def split: if_splits option.splits\<close>)

lemma grid_counts_reachable:
  "reachable s \<Longrightarrow> cols (gridSize s) \<noteq> 0 \<and> rows (gridSize s) \<noteq> 0"
proof (induction rule: reachable.induct)
  case reachable_initial
  show ?case by (simp add: initial_def)
next
  case (reachable_fire s p e s')
  show ?case by (rule grid_counts_fire [OF reachable_fire.hyps(2) reachable_fire.IH])
qed

text \<open>
  When the selected id names no image of the list (an upload or a mode switch has
  cleared the list and left the selection), \<open>addText\<close> throws.
\<close>

lemma addText_selected_id_not_in_list:
  "selectedImage s = Some i \<Longrightarrow> find (\<lambda>img. img_id img = i) (images s) = None \<Longrightarrow>
   addText s = Inl TypeError"
  by (simp add: addText_def)

subsection \<open>Rounding to a double\<close>


















subsection \<open>The grid position of the third upload\<close>

text \<open>
  C1 does not hold of the code. In Grid mode with four columns, three pictures are
  uploaded one after the other. The third image is the only element of the list, at
  index 0, and its grid position is (0, 1): the callback takes \<open>images.length\<close> from
  the render of its handler, where the list still holds the second image.
\<close>

theorem third_upload_gridPos_stale_length:
  "map_option (map img_gridPos \<circ> images)
     (run a4_portrait [ChangePrintMode PECS, Upload photo, Upload photo, Upload photo] initial)
     = Some [\<lparr>row = 0, col = 1\<rparr>]
   \<and> map_option (map img_gridPos \<circ> images)
     (run a4_portrait [ChangePrintMode PECS, Upload photo, Upload photo, Upload photo] initial)
     \<noteq> Some [\<lparr>row = 0, col = 2\<rparr>]
   \<and> map_option (map img_gridPos \<circ> images)
     (run a4_portrait [ChangePrintMode PECS, Upload photo, Upload photo, Upload photo] initial)
     \<noteq> Some [\<lparr>row = 0, col = 0\<rparr>]"
  by (simp add: images_upload gridPos_newImage gridSize_upload length_upload
      handlePrintModeChange_def initial_def)

subsection \<open>Uploads that overlap\<close>

text \<open>An event that completes no upload leaves an empty image list empty.\<close>

lemma fire_keeps_no_images:
  assumes "fire p e s = Some s'" "images s = []" "\<forall>img. e \<noteq> Upload img"
  shows "images s' = []"
proof (cases e)
  case MenuAddText
  then show ?thesis using assms
    by (auto simp: addText_def Let_def split: if_splits option.splits sum.splits)
qed (use assms in \<open>auto simp: handleSelectImage_def
  handleSelectText_def deleteSelectedImage_def deleteSelectedText_def zoomInImage_def
  zoomOutImage_def handleTextChange_def handleTextEdit_def handleContextMenu_def
  handleStageClick_def handlePrint_def handlePrintModeChange_def setCols_def setRows_def
  onChangeImage_def Let_def split: if_splits\<close>)

lemma sys_fire_keeps_no_images:
  assumes "sys_fire p e w = Some w'" "images (hooks w) = []" "\<not> completes_upload e"
  shows "images (hooks w') = []"
proof (cases e)
  case (StartUpload img)
  then show ?thesis using assms by (auto simp: handleFileUpload_def)
next
  case (FinishUpload k)
  then show ?thesis using assms by simp
next
  case (Other ev)
  have "\<forall>img. ev \<noteq> Upload img"
  proof (intro allI notI)
    fix img assume "ev = Upload img"
    then show False using assms(3) Other by simp
  qed
  moreover obtain s' where "fire p ev (hooks w) = Some s'" "w' = w\<lparr>hooks := s'\<rparr>"
    using assms(1) Other by (auto split: option.splits)
  ultimately show ?thesis using fire_keeps_no_images [of p ev "hooks w" s'] assms(2) by simp
qed

lemma sys_run_keeps_no_images:
  "sys_run p es w = Some w' \<Longrightarrow> images (hooks w) = [] \<Longrightarrow>
   \<forall>e \<in> set es. \<not> completes_upload e \<Longrightarrow> images (hooks w') = []"
proof (induction es arbitrary: w)
  case Nil
  then show ?case by simp
next
  case (Cons e es)
  from Cons.prems(1) obtain w1 where f: "sys_fire p e w = Some w1" and r: "sys_run p es w1 = Some w'"
    by (auto split: option.splits)
  have "images (hooks w1) = []"
    using f Cons.prems(2) Cons.prems(3) by (intro sys_fire_keeps_no_images [of p e w w1]) simp_all
  then show ?case using r Cons.prems(3) by (intro Cons.IH [of w1]) simp_all
qed

text \<open>
  C2 (as amended). The handler of an upload clears the image list, however many images
  it held. When no upload completes between the start of an upload and the next
  completion of an upload, the image list holds exactly one element after that
  completion: the image made from the picture of the completed upload.
\<close>

theorem upload_without_overlap_leaves_one_image:
  assumes "sys_fire p (StartUpload img) w = Some w1"
    and "sys_run p es w1 = Some w2"
    and "\<forall>e \<in> set es. \<not> completes_upload e"
    and "sys_fire p (FinishUpload k) w2 = Some w3"
  shows "images (hooks w1) = []
         \<and> images (hooks w3) =
             [newImage (pu_props (pending w2 ! k)) (pu_closure (pending w2 ! k))
                (pu_img (pending w2 ! k))]
         \<and> length (images (hooks w3)) = 1
         \<and> map img_src (images (hooks w3)) = [pu_img (pending w2 ! k)]"
proof -
  have c: "images (hooks w1) = []"
    using assms(1) by (auto simp: handleFileUpload_def)
  have e: "images (hooks w2) = []"
    using assms(2) c assms(3) by (rule sys_run_keeps_no_images)
  have k: "k < length (pending w2)"
    using assms(4) by (simp split: if_splits)
  have i: "images (hooks w3) =
             [newImage (pu_props (pending w2 ! k)) (pu_closure (pending w2 ! k))
                (pu_img (pending w2 ! k))]"
    using assms(4) k e by (auto simp: img_onload_def)
  show ?thesis using c i by (simp add: newImage_def Let_def)
qed

theorem upload_without_overlap_leaves_one_image_witness:
  "sys_fire a4_portrait (StartUpload poster)
       \<lparr>hooks = upload a4_portrait photo initial, pending = []\<rparr>
     = Some \<lparr>hooks = handleFileUpload (upload a4_portrait photo initial),
             pending = [\<lparr>pu_props = a4_portrait, pu_closure = upload a4_portrait photo initial,
                         pu_img = poster\<rparr>]\<rparr>
   \<and> sys_run a4_portrait [Other (ChangePrintMode PECS)]
       \<lparr>hooks = handleFileUpload (upload a4_portrait photo initial),
        pending = [\<lparr>pu_props = a4_portrait, pu_closure = upload a4_portrait photo initial,
                    pu_img = poster\<rparr>]\<rparr>
     = Some \<lparr>hooks = handlePrintModeChange PECS (handleFileUpload (upload a4_portrait photo initial)),
             pending = [\<lparr>pu_props = a4_portrait, pu_closure = upload a4_portrait photo initial,
                         pu_img = poster\<rparr>]\<rparr>
   \<and> completes_upload (Other (ChangePrintMode PECS)) = False
   \<and> map img_src
        (images (hooks (the (sys_fire a4_portrait (FinishUpload 0)
           \<lparr>hooks = handlePrintModeChange PECS (handleFileUpload (upload a4_portrait photo initial)),
            pending = [\<lparr>pu_props = a4_portrait, pu_closure = upload a4_portrait photo initial,
                        pu_img = poster\<rparr>]\<rparr>))))
     = [poster]"
proof -
  define w where "w = \<lparr>hooks = upload a4_portrait photo initial, pending = []\<rparr>"
  define u where "u = \<lparr>pu_props = a4_portrait, pu_closure = upload a4_portrait photo initial,
                       pu_img = poster\<rparr>"
  define w1 where "w1 = \<lparr>hooks = handleFileUpload (upload a4_portrait photo initial), pending = [u]\<rparr>"
  define w2 where "w2 = \<lparr>hooks = handlePrintModeChange PECS
                                    (handleFileUpload (upload a4_portrait photo initial)),
                         pending = [u]\<rparr>"
  have a: "sys_fire a4_portrait (StartUpload poster) w = Some w1"
    by (simp add: w_def w1_def u_def)
  have b: "sys_run a4_portrait [Other (ChangePrintMode PECS)] w1 = Some w2"
    by (simp add: w1_def w2_def)
  have c: "\<forall>e \<in> set [Other (ChangePrintMode PECS)]. \<not> completes_upload e"
    by simp
  obtain w3 where d: "sys_fire a4_portrait (FinishUpload 0) w2 = Some w3"
    by (simp add: w2_def)
  have "map img_src (images (hooks w3)) = [pu_img (pending w2 ! 0)]"
    using upload_without_overlap_leaves_one_image [OF a b c d] by (elim conjE)
  then have "map img_src (images (hooks (the (sys_fire a4_portrait (FinishUpload 0) w2)))) = [poster]"
    using d by (simp add: w2_def u_def)
  then show ?thesis
    using a b c unfolding w_def w1_def w2_def u_def by simp
qed

text \<open>
  C2 as stated fails: when a second upload starts before the first has completed, both
  callbacks append to the list that the second handler cleared, and after the second
  completed upload the list holds two images. Both have the id 0.
\<close>

theorem overlapped_uploads_counterexample:
  "map_option (map img_id \<circ> images \<circ> hooks)
     (sys_run a4_portrait
        [StartUpload photo, StartUpload poster, FinishUpload 0, FinishUpload 0] initial_system)
     = Some [0, 0]
   \<and> map_option (map img_src \<circ> images \<circ> hooks)
     (sys_run a4_portrait
        [StartUpload photo, StartUpload poster, FinishUpload 0, FinishUpload 0] initial_system)
     = Some [photo, poster]"
  by (simp add: initial_system_def handleFileUpload_def img_onload_def newImage_def Let_def
      initial_def)

subsection \<open>Scaled uploads\<close>



subsection \<open>Fit into the cell\<close>




subsection \<open>Mode switch\<close>

text \<open>
  C5. Switching the print mode sets the mode and leaves the image list and the text list
  empty, from every state.
\<close>

theorem print_mode_change_clears_lists:
  "images (handlePrintModeChange v s) = []
   \<and> texts (handlePrintModeChange v s) = []
   \<and> printMode (handlePrintModeChange v s) = v"
  by (simp add: handlePrintModeChange_def)

subsection \<open>Ids\<close>

text \<open>
  C6 does not hold of the code. A text gets the length of the text list as its id.
  With one image uploaded, two texts added (ids 0 and 1) and the first text deleted, the
  next text gets the id 1, which the text left in the list already has.
\<close>

theorem text_id_reused_after_delete:
  "map_option (map txt_id \<circ> texts)
     (run a4_portrait
        [Upload photo,
         ContextMenuImage 0 pointer, MenuAddText,
         ContextMenuImage 0 pointer, MenuAddText,
         ContextMenuText 0 pointer, MenuDeleteText,
         ContextMenuImage 0 pointer, MenuAddText] initial)
   = Some [1, 1]"
  by (simp add: upload_def img_onload_def handleFileUpload_def newImage_def Let_def
      handleContextMenu_def addText_def deleteSelectedText_def initial_def pointer_def)

subsection \<open>Zoom\<close>

text \<open>
  C7. Zoom-in multiplies the width and the height of the selected image by 1.2 and
  zoom-out by 0.8; its position, id, grid position and source stay as they are, every
  image with another id stays as it is, and the list keeps its length.
\<close>

theorem zoom_scales_selected_image:
  assumes "k < length (images s)"
  shows "(let im = images s ! k; zi = images (zoomInImage s) ! k; zo = images (zoomOutImage s) ! k
          in length (images (zoomInImage s)) = length (images s)
             \<and> length (images (zoomOutImage s)) = length (images s)
             \<and> (Some (img_id im) = selectedImage s \<longrightarrow>
                  img_width zi = img_width im * 1.2 \<and> img_height zi = img_height im * 1.2
                  \<and> img_width zo = img_width im * 0.8 \<and> img_height zo = img_height im * 0.8
                  \<and> img_x zi = img_x im \<and> img_y zi = img_y im \<and> img_id zi = img_id im
                  \<and> img_gridPos zi = img_gridPos im \<and> img_src zi = img_src im
                  \<and> img_x zo = img_x im \<and> img_y zo = img_y im \<and> img_id zo = img_id im
                  \<and> img_gridPos zo = img_gridPos im \<and> img_src zo = img_src im)
             \<and> (Some (img_id im) \<noteq> selectedImage s \<longrightarrow> zi = im \<and> zo = im))"
  using assms by (simp add: zoomInImage_def zoomOutImage_def Let_def)

theorem zoom_scales_selected_image_witness:
  "0 < length (images (handleSelectImage 0 (upload a4_portrait photo initial)))
   \<and> Some (img_id (images (handleSelectImage 0 (upload a4_portrait photo initial)) ! 0))
       = selectedImage (handleSelectImage 0 (upload a4_portrait photo initial))
   \<and> img_width (images (zoomInImage (handleSelectImage 0 (upload a4_portrait photo initial))) ! 0)
       = 252
   \<and> img_height (images (zoomOutImage (handleSelectImage 0 (upload a4_portrait photo initial))) ! 0)
       = 84
   \<and> Some (img_id (images (upload a4_portrait photo initial) ! 0))
       \<noteq> selectedImage (upload a4_portrait photo initial)
   \<and> images (zoomInImage (upload a4_portrait photo initial)) ! 0
       = images (upload a4_portrait photo initial) ! 0"
  using zoom_scales_selected_image [of 0 "handleSelectImage 0 (upload a4_portrait photo initial)"]
    zoom_scales_selected_image [of 0 "upload a4_portrait photo initial"]
  by (simp add: handleSelectImage_def upload_def img_onload_def handleFileUpload_def
      newImage_def initial_def a4_portrait_def photo_def canvasDimensions_def Let_def)

subsection \<open>Adding a text\<close>

text \<open>
  What \<open>addText\<close> does in the two cases that do not throw: with no image selected the
  text list stays as it is; with the selected id naming an image of the list, one text
  is appended near the first image of that id.
\<close>

lemma addText_cases:
  "(selectedImage s = None \<longrightarrow>
      (\<exists>s'. addText s = Inr s' \<and> texts s' = texts s))
   \<and> (selectedImage s = Some i \<and> find (\<lambda>img. img_id img = i) (images s) = Some sel \<longrightarrow>
      (\<exists>s'. addText s = Inr s'
            \<and> texts s' = texts s @
                 [\<lparr>txt_id = length (texts s), txt_x = img_x sel + 10, txt_y = img_y sel + 10,
                   txt_text = ''Sample Text'', txt_width = 100, txt_rotation = 0\<rparr>]))"
  by (simp add: addText_def Let_def)

text \<open>
  C8 does not hold of the code. An image is uploaded and its context menu opened, which
  selects it; the print mode is switched, which empties the image list and leaves the
  selection and the menu. \<open>Add Text\<close> then throws: no text is appended and the menu
  stays open.
\<close>

theorem addText_throws_without_selected_image:
  "map_option addText
     (run a4_portrait [Upload photo, ContextMenuImage 0 pointer, ChangePrintMode PECS] initial)
     = Some (Inl TypeError)
   \<and> map_option selectedImage
     (run a4_portrait [Upload photo, ContextMenuImage 0 pointer, ChangePrintMode PECS] initial)
     = Some (Some 0)
   \<and> map_option images
     (run a4_portrait [Upload photo, ContextMenuImage 0 pointer, ChangePrintMode PECS] initial)
     = Some []
   \<and> map_option texts
     (run a4_portrait
        [Upload photo, ContextMenuImage 0 pointer, ChangePrintMode PECS, MenuAddText] initial)
     = Some []
   \<and> map_option contextMenu
     (run a4_portrait
        [Upload photo, ContextMenuImage 0 pointer, ChangePrintMode PECS, MenuAddText] initial)
     = Some (Some pointer)"
  by (simp add: images_upload upload_def img_onload_def handleFileUpload_def newImage_def
      Let_def handleContextMenu_def handlePrintModeChange_def addText_def initial_def)

subsection \<open>A click on the empty canvas\<close>

text \<open>The page covers the whole stage, so the stage is never the target.\<close>

lemma page_covers_stage: "on_stage p px py \<Longrightarrow> page_rect_covers p px py"
  by (simp add: on_stage_def page_rect_covers_def stage_width_def stage_height_def)

lemma mouseDownEmptyCanvas_no_effect: "on_stage p px py \<Longrightarrow> mouseDownEmptyCanvas p px py s = s"
  by (simp add: mouseDownEmptyCanvas_def empty_canvas_target_def page_covers_stage
      handleStageClick_def)

text \<open>
  C9 does not hold of the code. An image is uploaded on A4 portrait (it lies between
  \<open>y = 96\<close> and \<open>y = 201\<close> of the page) and its context menu is opened, which selects
  it. A mouse-down at the pixel (15, 15) of the stage, where the page is empty, has the
  page \<open>Rect\<close> as its target: the image stays selected and the menu stays open.
\<close>

theorem empty_canvas_click_clears_nothing:
  "on_stage a4_portrait 15 15
   \<and> empty_canvas_target a4_portrait 15 15 = PageRect
   \<and> map_option (selectedImage \<circ> mouseDownEmptyCanvas a4_portrait 15 15)
       (run a4_portrait [Upload photo, ContextMenuImage 0 pointer] initial)
     = Some (Some 0)
   \<and> map_option (contextMenu \<circ> mouseDownEmptyCanvas a4_portrait 15 15)
       (run a4_portrait [Upload photo, ContextMenuImage 0 pointer] initial)
     = Some (Some pointer)"
  by (simp add: on_stage_def stage_width_def stage_height_def empty_canvas_target_def
      page_rect_covers_def mouseDownEmptyCanvas_def handleStageClick_def a4_portrait_def
      canvasDimensions_def images_upload newImage_def Let_def handleContextMenu_def initial_def)

subsection \<open>Stored and rendered position\<close>



end
